theory Spec2Isabelle
  imports Complex_Main
begin

section \<open>Numbers\<close>

text \<open>
  The program computes on float64 arrays. A value is modelled as an exact real number, or
  one of the three special values of the floating-point format. Rounding and overflow are
  not modelled: a finite result is the exact real result. Division by zero, the sum of
  opposite infinities and the square root of a negative number give the special values the
  hardware gives; the only zero that occurs as a divisor in the program is the
  non-negative result of a square root, so the sign of a quotient by zero is the sign of
  the dividend.
\<close>

datatype fval = Fin real | PInf | NInf | NaN

fun fneg :: "fval \<Rightarrow> fval" where
  "fneg (Fin x) = Fin (- x)"
| "fneg PInf = NInf"
| "fneg NInf = PInf"
| "fneg NaN = NaN"

fun fadd :: "fval \<Rightarrow> fval \<Rightarrow> fval" where
  "fadd (Fin x) (Fin y) = Fin (x + y)"
| "fadd NaN _ = NaN"
| "fadd _ NaN = NaN"
| "fadd PInf NInf = NaN"
| "fadd NInf PInf = NaN"
| "fadd PInf _ = PInf"
| "fadd _ PInf = PInf"
| "fadd NInf _ = NInf"
| "fadd _ NInf = NInf"

definition fsub :: "fval \<Rightarrow> fval \<Rightarrow> fval" where
  "fsub a b = fadd a (fneg b)"

fun fsign :: "fval \<Rightarrow> int" where
  "fsign (Fin x) = (if x < 0 then - 1 else if x = 0 then 0 else 1)"
| "fsign PInf = 1"
| "fsign NInf = - 1"
| "fsign NaN = 0"

definition finf :: "int \<Rightarrow> fval" where
  "finf s = (if s < 0 then NInf else PInf)"

fun fmul :: "fval \<Rightarrow> fval \<Rightarrow> fval" where
  "fmul (Fin x) (Fin y) = Fin (x * y)"
| "fmul NaN _ = NaN"
| "fmul _ NaN = NaN"
| "fmul a b = (if fsign a * fsign b = 0 then NaN else finf (fsign a * fsign b))"

fun fdiv :: "fval \<Rightarrow> fval \<Rightarrow> fval" where
  "fdiv (Fin x) (Fin y) =
     (if y \<noteq> 0 then Fin (x / y) else if x = 0 then NaN else finf (fsign (Fin x)))"
| "fdiv NaN _ = NaN"
| "fdiv _ NaN = NaN"
| "fdiv (Fin x) _ = Fin 0"
| "fdiv a (Fin y) = finf (fsign a * (if y < 0 then - 1 else 1))"
| "fdiv _ _ = NaN"

fun fsqrt :: "fval \<Rightarrow> fval" where
  "fsqrt (Fin x) = (if 0 \<le> x then Fin (sqrt x) else NaN)"
| "fsqrt PInf = PInf"
| "fsqrt NInf = NaN"
| "fsqrt NaN = NaN"

text \<open>The comparison \<open>a <= b\<close> of two floats: false as soon as one side is NaN.\<close>

fun fle :: "fval \<Rightarrow> fval \<Rightarrow> bool" where
  "fle NaN _ = False"
| "fle _ NaN = False"
| "fle NInf _ = True"
| "fle _ PInf = True"
| "fle (Fin x) (Fin y) = (x \<le> y)"
| "fle _ _ = False"

text \<open>\<open>np.maximum\<close>: the larger of the two, NaN as soon as one side is NaN.\<close>

definition fmaximum :: "fval \<Rightarrow> fval \<Rightarrow> fval" where
  "fmaximum a b = (if a = NaN \<or> b = NaN then NaN else if fle a b then b else a)"

definition isna :: "fval \<Rightarrow> bool" where
  "isna v = (v = NaN)"

section \<open>Tables and series\<close>

datatype date = Date (year: int) (month: nat) (day: nat)

text \<open>
  A row label is a timestamp (the table then has a date-typed index) or a raw label as
  read from the file. A table is its column names in order and its rows, each a label
  and the value of every named field.
\<close>

datatype label = Ts date | Raw string

record frame =
  columns :: "string list"
  rows :: "(label \<times> (string \<Rightarrow> fval)) list"

record series =
  sname :: string
  items :: "(label \<times> fval) list"

datatype error = ValueError string | KeyError string | TypeError string | IndexError string
  | ParseError string

definition frame_index :: "frame \<Rightarrow> label list" where
  "frame_index df = map fst (rows df)"

definition column :: "frame \<Rightarrow> string \<Rightarrow> fval list" where
  "column df c = map (\<lambda>r. snd r c) (rows df)"

definition series_index :: "series \<Rightarrow> label list" where
  "series_index s = map fst (items s)"

definition series_values :: "series \<Rightarrow> fval list" where
  "series_values s = map snd (items s)"

text \<open>\<open>data[c]\<close>: the column as a series named after it, or the missing-key error.\<close>

definition getitem :: "frame \<Rightarrow> string \<Rightarrow> error + series" where
  "getitem df c =
     (if c \<in> set (columns df)
      then Inr \<lparr>sname = c, items = map (\<lambda>r. (fst r, snd r c)) (rows df)\<rparr>
      else Inl (KeyError c))"

section \<open>Reductions of the table library\<close>

definition fsum :: "fval list \<Rightarrow> fval" where
  "fsum vs = foldl fadd (Fin 0) vs"

text \<open>\<open>Series.mean()\<close>: missing values are skipped; NaN when nothing is left.\<close>

definition series_mean :: "fval list \<Rightarrow> fval" where
  "series_mean vs =
     (let ws = filter (\<lambda>v. \<not> isna v) vs
      in if ws = [] then NaN else fdiv (fsum ws) (Fin (real (length ws))))"

text \<open>
  \<open>Series.std()\<close>: the sample standard deviation (one degree of freedom removed) of
  the values that are not missing; NaN when at most one value is left.
\<close>

definition series_std :: "fval list \<Rightarrow> fval" where
  "series_std vs =
     (let ws = filter (\<lambda>v. \<not> isna v) vs;
          n = length ws
      in if n \<le> 1 then NaN
         else let avg = fdiv (fsum ws) (Fin (real n));
                  sqr = map (\<lambda>v. fmul (fsub avg v) (fsub avg v)) ws
              in fsqrt (fdiv (fsum sqr) (Fin (real (n - 1)))))"

fun np_cumsum :: "fval \<Rightarrow> fval list \<Rightarrow> fval list" where
  "np_cumsum acc [] = []"
| "np_cumsum acc (v # vs) = fadd acc v # np_cumsum (fadd acc v) vs"

text \<open>
  \<open>Series.cumsum()\<close>: missing values count as zero in the running sum and stay
  missing in the result.
\<close>

definition cumsum :: "fval list \<Rightarrow> fval list" where
  "cumsum vs =
     map (\<lambda>(v, c). if isna v then NaN else c)
       (zip vs (np_cumsum (Fin 0) (map (\<lambda>v. if isna v then Fin 0 else v) vs)))"

section \<open>The index calculator\<close>

definition calculate_climate_index ::
  "frame \<Rightarrow> string \<Rightarrow> (string \<rightharpoonup> real) \<Rightarrow> error + series" where
  "calculate_climate_index data index_type params =
     (if index_type = ''SPI'' then
        if ''precipitation'' \<notin> set (columns data)
        then Inl (ValueError ''Precipitation data not found in the DataFrame'')
        else
          let precipitation = column data ''precipitation'';
              m = series_mean precipitation;
              s = series_std precipitation;
              spi = map (\<lambda>v. fdiv (fsub v m) s) precipitation
          in Inr \<lparr>sname = ''SPI'', items = zip (frame_index data) spi\<rparr>
      else if index_type = ''GDD'' then
        let base_temp = (case params ''base_temp'' of None \<Rightarrow> 10 | Some b \<Rightarrow> b)
        in if ''temperature'' \<in> set (columns data) then
             let temp = column data ''temperature'';
                 gdd = cumsum (map (\<lambda>v. fmaximum (fsub v (Fin base_temp)) (Fin 0)) temp)
             in Inr \<lparr>sname = ''GDD'', items = zip (frame_index data) gdd\<rparr>
           else if ''temp_max'' \<in> set (columns data) \<and> ''temp_min'' \<in> set (columns data) then
             let temp_max = column data ''temp_max'';
                 temp_min = column data ''temp_min'';
                 eff = map (\<lambda>(a, b). fdiv (fadd a b) (Fin 2)) (zip temp_max temp_min);
                 gdd = cumsum (map (\<lambda>v. fmaximum (fsub v (Fin base_temp)) (Fin 0)) eff)
             in Inr \<lparr>sname = ''GDD'', items = zip (frame_index data) gdd\<rparr>
           else Inl (ValueError ''Required temperature data not found in the DataFrame'')
      else Inl (ValueError ''Unsupported climate index''))"

section \<open>The loader\<close>

text \<open>
  The three file readers of the table library, with the file system they read, are the
  environment of the loader: each returns the table it parsed, or fails. The conversion
  of a raw label to a timestamp is the library's \<open>to_datetime\<close>, which fails on a label
  it cannot parse.
\<close>

record readers =
  read_csv :: "string \<Rightarrow> error + frame"
  read_json :: "string \<Rightarrow> error + frame"
  read_excel :: "string \<Rightarrow> error + frame"
  parse_datetime :: "string \<Rightarrow> date option"

fun is_Ts :: "label \<Rightarrow> bool" where
  "is_Ts (Ts d) = True"
| "is_Ts (Raw s) = False"

definition is_datetime_index :: "label list \<Rightarrow> bool" where
  "is_datetime_index ls = list_all is_Ts ls"

fun to_datetime :: "(string \<Rightarrow> date option) \<Rightarrow> label list \<Rightarrow> error + label list" where
  "to_datetime parse [] = Inr []"
| "to_datetime parse (Ts d # ls) =
     (case to_datetime parse ls of Inl e \<Rightarrow> Inl e | Inr ds \<Rightarrow> Inr (Ts d # ds))"
| "to_datetime parse (Raw s # ls) =
     (case parse s of
        None \<Rightarrow> Inl (ParseError s)
      | Some d \<Rightarrow> (case to_datetime parse ls of Inl e \<Rightarrow> Inl e | Inr ds \<Rightarrow> Inr (Ts d # ds)))"

definition set_index :: "frame \<Rightarrow> label list \<Rightarrow> frame" where
  "set_index df ls = df\<lparr>rows := map (\<lambda>(l, r). (l, snd r)) (zip ls (rows df))\<rparr>"

definition row_complete :: "string list \<Rightarrow> (label \<times> (string \<Rightarrow> fval)) \<Rightarrow> bool" where
  "row_complete cs r = list_all (\<lambda>c. \<not> isna (snd r c)) cs"

definition dropna :: "frame \<Rightarrow> frame" where
  "dropna df = df\<lparr>rows := filter (row_complete (columns df)) (rows df)\<rparr>"

definition import_data :: "readers \<Rightarrow> string \<Rightarrow> string \<Rightarrow> error + frame" where
  "import_data env file_path file_type =
     (case (if file_type = ''csv'' then read_csv env file_path
            else if file_type = ''json'' then read_json env file_path
            else if file_type = ''excel'' then read_excel env file_path
            else Inl (ValueError ''Unsupported file type'')) of
        Inl e \<Rightarrow> Inl e
      | Inr df \<Rightarrow>
          (case (if \<not> is_datetime_index (frame_index df)
                 then (case to_datetime (parse_datetime env) (frame_index df) of
                         Inl e \<Rightarrow> Inl e
                       | Inr ls \<Rightarrow> Inr (set_index df ls))
                 else Inr df) of
             Inl e \<Rightarrow> Inl e
           | Inr df' \<Rightarrow> Inr (dropna df')))"

section \<open>Resampling\<close>

definition leap_year :: "int \<Rightarrow> bool" where
  "leap_year y = ((y mod 4 = 0 \<and> y mod 100 \<noteq> 0) \<or> y mod 400 = 0)"

definition days_in_month :: "int \<Rightarrow> nat \<Rightarrow> nat" where
  "days_in_month y m =
     (if m = 2 then (if leap_year y then 29 else 28)
      else if m = 4 \<or> m = 6 \<or> m = 9 \<or> m = 11 then 30 else 31)"

text \<open>
  The bin of a timestamp and the label of a bin: months are numbered consecutively
  through the years and labelled by their last day; years are labelled by 31 December.
\<close>

definition month_bin :: "date \<Rightarrow> int" where
  "month_bin d = year d * 12 + int (month d) - 1"

definition month_end :: "int \<Rightarrow> date" where
  "month_end k = Date (k div 12) (nat (k mod 12) + 1) (days_in_month (k div 12) (nat (k mod 12) + 1))"

definition year_bin :: "date \<Rightarrow> int" where
  "year_bin d = year d"

definition year_end :: "int \<Rightarrow> date" where
  "year_end k = Date k 12 31"

fun label_bin :: "(date \<Rightarrow> int) \<Rightarrow> label \<Rightarrow> int option" where
  "label_bin bin (Ts d) = Some (bin d)"
| "label_bin bin (Raw s) = None"

definition bin_values :: "(date \<Rightarrow> int) \<Rightarrow> (label \<times> fval) list \<Rightarrow> int \<Rightarrow> fval list" where
  "bin_values bin its k = map snd (filter (\<lambda>it. label_bin bin (fst it) = Some k) its)"

text \<open>
  \<open>s.resample(freq).mean()\<close>: only a date-typed index can be resampled; the result has
  one point for every bin from the earliest to the latest timestamp, the mean of the
  values in the bin (NaN for a bin without values).
\<close>

definition resample_mean :: "(date \<Rightarrow> int) \<Rightarrow> (int \<Rightarrow> date) \<Rightarrow> series \<Rightarrow> error + series" where
  "resample_mean bin lab s =
     (if \<not> is_datetime_index (series_index s)
      then Inl (TypeError ''Only valid with DatetimeIndex, TimedeltaIndex or PeriodIndex'')
      else
        (case List.map_filter (label_bin bin) (series_index s) of
           [] \<Rightarrow> Inr \<lparr>sname = sname s, items = []\<rparr>
         | k # ks \<Rightarrow>
             Inr \<lparr>sname = sname s,
                  items = map (\<lambda>j. (Ts (lab j), series_mean (bin_values bin (items s) j)))
                            [fold min ks k .. fold max ks k]\<rparr>))"

section \<open>Linear regression and seasonal decomposition\<close>

record trend_fit =
  slope :: fval
  intercept :: fval
  r_value :: fval
  p_value :: fval

definition np_mean :: "fval list \<Rightarrow> fval" where
  "np_mean vs = fdiv (fsum vs) (Fin (real (length vs)))"

definition flt :: "fval \<Rightarrow> fval \<Rightarrow> bool" where
  "flt a b = (fle a b \<and> a \<noteq> b)"

text \<open>
  Modelled from the spec: the least-squares routine \<open>stats.linregress\<close> belongs to a
  library that is not among the sources. The fit is ordinary least squares: with the
  mean squared deviations \<open>ssxm\<close>, \<open>ssym\<close> and the mean product of deviations \<open>ssxym\<close>,
  the slope is \<open>ssxym / ssxm\<close>, the intercept \<open>ymean - slope * xmean\<close> and the correlation
  coefficient \<open>ssxym / sqrt (ssxm * ssym)\<close>, kept within \<open>[-1, 1]\<close> and taken as 0 when a
  variance is zero. The routine rejects empty input, and more than one point with
  identical abscissae. The significance of the slope needs the Student distribution; it
  is the parameter \<open>pv\<close>, of the number of points and the correlation coefficient.
\<close>

definition linregress :: "(nat \<Rightarrow> fval \<Rightarrow> fval) \<Rightarrow> real list \<Rightarrow> fval list \<Rightarrow> error + trend_fit" where
  "linregress pv x y =
     (if x = [] \<or> y = [] then Inl (ValueError ''Inputs must not be empty.'')
      else if fold max (tl x) (hd x) = fold min (tl x) (hd x) \<and> length x > 1
      then Inl (ValueError ''Cannot calculate a linear regression if all x values are identical'')
      else
        let xs = map Fin x;
            xmean = np_mean xs;
            ymean = np_mean y;
            dx = map (\<lambda>v. fsub v xmean) xs;
            dy = map (\<lambda>v. fsub v ymean) y;
            ssxm = np_mean (map (\<lambda>a. fmul a a) dx);
            ssxym = np_mean (map (\<lambda>(a, b). fmul a b) (zip dx dy));
            ssym = np_mean (map (\<lambda>b. fmul b b) dy);
            r0 = fdiv ssxym (fsqrt (fmul ssxm ssym));
            r = (if ssxm = Fin 0 \<or> ssym = Fin 0 then Fin 0
                 else if flt (Fin 1) r0 then Fin 1
                 else if flt r0 (Fin (- 1)) then Fin (- 1)
                 else r0);
            sl = fdiv ssxym ssxm
        in Inr \<lparr>slope = sl, intercept = fsub ymean (fmul sl xmean), r_value = r,
                p_value = pv (length x) r\<rparr>)"

fun is_finite :: "fval \<Rightarrow> bool" where
  "is_finite (Fin x) = True"
| "is_finite _ = False"

text \<open>
  Modelled from the spec: the routine \<open>seasonal_decompose\<close> belongs to a library that
  is not among the sources. The additive model with period \<open>p\<close>: the trend is the centred
  moving average over one period (half weights at both ends when \<open>p\<close> is even), missing
  for the first and last \<open>p div 2\<close> points; the seasonal component repeats the \<open>p\<close>
  averages of the detrended series by position in the period, centred on zero; the
  residual is what is left. Both components have the length of the input. The routine
  rejects a series with a missing or infinite value, and one shorter than two periods.
\<close>

definition ma_weights :: "nat \<Rightarrow> real list" where
  "ma_weights p =
     (if even p then [1 / (2 * real p)] @ replicate (p - 1) (1 / real p) @ [1 / (2 * real p)]
      else replicate p (1 / real p))"

definition ma_trend :: "nat \<Rightarrow> fval list \<Rightarrow> fval list" where
  "ma_trend p vs =
     map (\<lambda>i. if p div 2 \<le> i \<and> i + p div 2 < length vs
               then fsum (map (\<lambda>(w, v). fmul (Fin w) v)
                            (zip (ma_weights p) (take (2 * (p div 2) + 1) (drop (i - p div 2) vs))))
               else NaN)
       [0 ..< length vs]"

definition period_averages :: "nat \<Rightarrow> fval list \<Rightarrow> fval list" where
  "period_averages p ds =
     (let avgs = map (\<lambda>i. series_mean (map (\<lambda>j. ds ! j) (filter (\<lambda>j. j mod p = i) [0 ..< length ds])))
                   [0 ..< p];
          m = np_mean avgs
      in map (\<lambda>a. fsub a m) avgs)"

definition seasonal_decompose :: "nat \<Rightarrow> fval list \<Rightarrow> error + fval list \<times> fval list" where
  "seasonal_decompose p vs =
     (if \<not> list_all is_finite vs
      then Inl (ValueError ''This function does not handle missing values'')
      else if length vs < 2 * p
      then Inl (ValueError ''x must have 2 complete cycles'')
      else
        let detrended = map (\<lambda>(v, t). fsub v t) (zip vs (ma_trend p vs));
            avgs = period_averages p detrended;
            seasonal = map (\<lambda>i. avgs ! (i mod p)) [0 ..< length vs];
            resid = map (\<lambda>(d, s). fsub d s) (zip detrended seasonal)
        in Inr (seasonal, resid))"

section \<open>The trend analyzer\<close>

definition digit_char :: "nat \<Rightarrow> char" where
  "digit_char d = ''0123456789'' ! d"

function str_nat :: "nat \<Rightarrow> string" where
  "str_nat n = (if n < 10 then [digit_char n] else str_nat (n div 10) @ [digit_char (n mod 10)])"
  by pat_completeness auto
termination
  by (relation "measure id") auto

declare str_nat.simps [simp del]

record results =
  trend :: trend_fit
  seasonal :: "series option"
  residual :: "series option"

definition not_enough_notice :: "nat \<Rightarrow> string" where
  "not_enough_notice n =
     ''Warning: Not enough data for seasonal decomposition. Need at least 24 observations, but only have ''
       @ str_nat n @ ''.''"

text \<open>
  \<open>data[variable].resample(...).mean()\<close> for the two period tags; any other tag is
  rejected before the table is looked at.
\<close>

definition resampled_data :: "frame \<Rightarrow> string \<Rightarrow> string \<Rightarrow> error + series" where
  "resampled_data data variable time_period =
     (if time_period = ''monthly'' then
        (case getitem data variable of
           Inl e \<Rightarrow> Inl e | Inr s \<Rightarrow> resample_mean month_bin month_end s)
      else if time_period = ''yearly'' then
        (case getitem data variable of
           Inl e \<Rightarrow> Inl e | Inr s \<Rightarrow> resample_mean year_bin year_end s)
      else Inl (ValueError ''Unsupported time period''))"

text \<open>
  The analyzer returns its result dictionary together with the lines it printed. The
  two decomposition entries are optional: \<open>None\<close> is a key absent from the dictionary.
\<close>

definition analyze_trends ::
  "(nat \<Rightarrow> fval \<Rightarrow> fval) \<Rightarrow> frame \<Rightarrow> string \<Rightarrow> string \<Rightarrow> error + results \<times> string list" where
  "analyze_trends pv data variable time_period =
     (case resampled_data data variable time_period of
        Inl e \<Rightarrow> Inl e
      | Inr rs \<Rightarrow>
          (case linregress pv (map real [0 ..< length (items rs)]) (series_values rs) of
             Inl e \<Rightarrow> Inl e
           | Inr fit \<Rightarrow>
               if length (items rs) \<ge> 24 then
                 (case seasonal_decompose 12 (series_values rs) of
                    Inl e \<Rightarrow> Inl e
                  | Inr (sea, res) \<Rightarrow>
                      Inr (\<lparr>trend = fit,
                            seasonal = Some \<lparr>sname = ''seasonal'', items = zip (series_index rs) sea\<rparr>,
                            residual = Some \<lparr>sname = ''resid'', items = zip (series_index rs) res\<rparr>\<rparr>,
                           []))
               else
                 Inr (\<lparr>trend = fit, seasonal = None, residual = None\<rparr>,
                      [not_enough_notice (length (items rs))])))"

section \<open>The visualizer\<close>

text \<open>
  A figure is what was drawn and the three captions. The pivot of a column into a grid
  with its colour map, and the grouping of a column by calendar month into boxes, are
  calls into the plotting libraries: they are the environment of the visualizer.
\<close>

datatype plot_body = LinePlot "label list" "fval list" | Rendered string

record figure =
  body :: plot_body
  title :: string
  xlabel :: string
  ylabel :: string

record plotlib =
  heatmap_pivot :: "frame \<Rightarrow> string \<Rightarrow> error + plot_body"
  boxplot_by_month :: "frame \<Rightarrow> string \<Rightarrow> error + plot_body"

datatype plot_input = FrameIn frame | SeriesIn series

definition to_frame :: "series \<Rightarrow> frame" where
  "to_frame s =
     \<lparr>columns = [sname s],
      rows = map (\<lambda>(l, v). (l, \<lambda>c. if c = sname s then v else NaN)) (items s)\<rparr>"

text \<open>
  \<open>kwargs.get('variable', data.columns[0])\<close>: the default is computed before the
  lookup, so a table without columns fails here whether or not a variable is given.
\<close>

definition chosen_variable :: "frame \<Rightarrow> (string \<rightharpoonup> string) \<Rightarrow> error + string" where
  "chosen_variable df kwargs =
     (case columns df of
        [] \<Rightarrow> Inl (IndexError ''index 0 is out of bounds'')
      | c # cs \<Rightarrow> Inr (case kwargs ''variable'' of None \<Rightarrow> c | Some v \<Rightarrow> v))"

definition visualize_data ::
  "plotlib \<Rightarrow> plot_input \<Rightarrow> string \<Rightarrow> (string \<rightharpoonup> string) \<Rightarrow> error + figure" where
  "visualize_data lib data plot_type kwargs =
     (let df = (case data of FrameIn f \<Rightarrow> f | SeriesIn s \<Rightarrow> to_frame s) in
      if plot_type = ''line'' then
        (case chosen_variable df kwargs of
           Inl e \<Rightarrow> Inl e
         | Inr variable \<Rightarrow>
             (case getitem df variable of
                Inl e \<Rightarrow> Inl e
              | Inr s \<Rightarrow>
                  Inr \<lparr>body = LinePlot (frame_index df) (series_values s),
                       title = variable @ '' over time'',
                       xlabel = ''Date'', ylabel = variable\<rparr>))
      else if plot_type = ''heatmap'' then
        (case chosen_variable df kwargs of
           Inl e \<Rightarrow> Inl e
         | Inr variable \<Rightarrow>
             (case heatmap_pivot lib df variable of
                Inl e \<Rightarrow> Inl e
              | Inr b \<Rightarrow>
                  Inr \<lparr>body = b, title = ''Heatmap of '' @ variable,
                       xlabel = ''Month'', ylabel = ''Year''\<rparr>))
      else if plot_type = ''boxplot'' then
        (case chosen_variable df kwargs of
           Inl e \<Rightarrow> Inl e
         | Inr variable \<Rightarrow>
             (case boxplot_by_month lib df variable of
                Inl e \<Rightarrow> Inl e
              | Inr b \<Rightarrow>
                  Inr \<lparr>body = b, title = ''Monthly distribution of '' @ variable,
                       xlabel = ''Month'', ylabel = variable\<rparr>))
      else Inl (ValueError ''Unsupported plot type''))"

section \<open>Reference formulas and example tables\<close>

text \<open>The arithmetic mean and the sample standard deviation of a list of reals.\<close>

definition mean_of :: "real list \<Rightarrow> real" where
  "mean_of xs = sum_list xs / real (length xs)"

definition std_of :: "real list \<Rightarrow> real" where
  "std_of xs = sqrt ((\<Sum>x\<leftarrow>xs. (x - mean_of xs)\<^sup>2) / real (length xs - 1))"

definition row_of :: "(string \<times> real) list \<Rightarrow> string \<Rightarrow> fval" where
  "row_of kvs c = (case map_of kvs c of None \<Rightarrow> NaN | Some v \<Rightarrow> Fin v)"

definition demo_climate :: frame where
  "demo_climate =
     \<lparr>columns = [''temperature'', ''precipitation''],
      rows = [(Ts (Date 2020 1 1), row_of [(''temperature'', 12), (''precipitation'', 1)]),
              (Ts (Date 2020 1 2), row_of [(''temperature'', 8), (''precipitation'', 3)]),
              (Ts (Date 2020 1 3), row_of [(''temperature'', 15), (''precipitation'', 5)])]\<rparr>"


definition demo_humidity :: frame where
  "demo_humidity =
     \<lparr>columns = [''humidity''],
      rows = [(Ts (Date 2020 1 1), row_of [(''humidity'', 40)])]\<rparr>"

definition no_files :: readers where
  "no_files =
     \<lparr>read_csv = (\<lambda>p. Inl (ParseError p)), read_json = (\<lambda>p. Inl (ParseError p)),
      read_excel = (\<lambda>p. Inl (ParseError p)), parse_datetime = (\<lambda>s. None)\<rparr>"

definition no_plots :: plotlib where
  "no_plots =
     \<lparr>heatmap_pivot = (\<lambda>df v. Inl (KeyError v)),
      boxplot_by_month = (\<lambda>df v. Inr (Rendered v))\<rparr>"



definition nonneg :: "fval \<Rightarrow> bool" where
  "nonneg v = fle (Fin 0) v"

text \<open>The reader that the loader calls for a supported file type.\<close>

definition reader_for :: "readers \<Rightarrow> string \<Rightarrow> (string \<Rightarrow> error + frame) option" where
  "reader_for env file_type =
     (if file_type = ''csv'' then Some (read_csv env)
      else if file_type = ''json'' then Some (read_json env)
      else if file_type = ''excel'' then Some (read_excel env)
      else None)"

fun parses :: "(string \<Rightarrow> date option) \<Rightarrow> label \<Rightarrow> bool" where
  "parses parse (Ts d) = True"
| "parses parse (Raw s) = (parse s \<noteq> None)"

definition demo_raw :: frame where
  "demo_raw =
     \<lparr>columns = [''temperature'', ''precipitation''],
      rows = [(Raw ''2022-01-01'', row_of [(''temperature'', 10), (''precipitation'', 1)]),
              (Raw ''2022-01-02'', row_of [(''temperature'', 11)]),
              (Raw ''2022-01-03'', row_of [(''temperature'', 12), (''precipitation'', 0)])]\<rparr>"

definition demo_loaded :: frame where
  "demo_loaded =
     \<lparr>columns = [''temperature'', ''precipitation''],
      rows = [(Ts (Date 2022 1 1), row_of [(''temperature'', 10), (''precipitation'', 1)]),
              (Ts (Date 2022 1 3), row_of [(''temperature'', 12), (''precipitation'', 0)])]\<rparr>"

definition demo_files :: readers where
  "demo_files =
     \<lparr>read_csv = (\<lambda>p. if p = ''data.csv'' then Inr demo_raw else Inl (ParseError p)),
      read_json = (\<lambda>p. Inl (ParseError p)),
      read_excel = (\<lambda>p. Inl (ParseError p)),
      parse_datetime = map_of [(''2022-01-01'', Date 2022 1 1), (''2022-01-02'', Date 2022 1 2),
                               (''2022-01-03'', Date 2022 1 3)]\<rparr>"

text \<open>
  Consecutive calendar days, as \<open>pd.date_range(start, periods = n, freq = 'D')\<close> gives
  them, and the table of one temperature column over such days.
\<close>

fun next_day :: "date \<Rightarrow> date" where
  "next_day (Date y m d) =
     (if d < days_in_month y m then Date y m (d + 1)
      else if m < 12 then Date y (m + 1) 1
      else Date (y + 1) 1 1)"

fun daily :: "date \<Rightarrow> nat \<Rightarrow> date list" where
  "daily d 0 = []"
| "daily d (Suc n) = d # daily (next_day d) n"

definition daily_table :: "date \<Rightarrow> fval list \<Rightarrow> frame" where
  "daily_table start vs =
     \<lparr>columns = [''temperature''],
      rows = map (\<lambda>(d, v). (Ts d, \<lambda>c. if c = ''temperature'' then v else NaN))
               (zip (daily start (length vs)) vs)\<rparr>"

definition no_pvalue :: "nat \<Rightarrow> fval \<Rightarrow> fval" where
  "no_pvalue n r = NaN"


definition ten_days :: frame where
  "ten_days = daily_table (Date 2020 1 1) (replicate 10 (Fin 15))"

definition ten_days_across :: frame where
  "ten_days_across = daily_table (Date 2020 1 27) (replicate 10 (Fin 15))"

definition three_years :: frame where
  "three_years = daily_table (Date 2020 1 1) (replicate 1096 (Fin 15))"

text \<open>
  The deviations of a list from its mean, and the mean product of the deviations of two
  lists: the covariance that least squares divides by the variance.
\<close>

definition dev :: "real list \<Rightarrow> real list" where
  "dev xs = map (\<lambda>v. v - mean_of xs) xs"






section \<open>Unsupported tags and missing columns\<close>

text \<open>
  C6. A tag outside the recognised set makes each of the four operations fail with a
  value error, whatever its other arguments: the loader for a file type other than csv,
  json and excel (no reader is called), the analyzer for a period other than monthly and
  yearly, the visualizer for a plot type other than line, heatmap and boxplot, the index
  calculator for an index type other than SPI and GDD.
\<close>

theorem unsupported_tag_value_error:
  "(file_type \<notin> {''csv'', ''json'', ''excel''} \<longrightarrow>
      import_data env file_path file_type = Inl (ValueError ''Unsupported file type''))
   \<and> (time_period \<notin> {''monthly'', ''yearly''} \<longrightarrow>
      analyze_trends pv data variable time_period = Inl (ValueError ''Unsupported time period''))
   \<and> (plot_type \<notin> {''line'', ''heatmap'', ''boxplot''} \<longrightarrow>
      visualize_data lib inp plot_type kwargs = Inl (ValueError ''Unsupported plot type''))
   \<and> (index_type \<notin> {''SPI'', ''GDD''} \<longrightarrow>
      calculate_climate_index data index_type params = Inl (ValueError ''Unsupported climate index''))"
  by (simp add: import_data_def analyze_trends_def resampled_data_def visualize_data_def
      calculate_climate_index_def)

theorem unsupported_tag_value_error_witness:
  "''xml'' \<notin> {''csv'', ''json'', ''excel''}
   \<and> import_data no_files ''data.xml'' ''xml'' = Inl (ValueError ''Unsupported file type'')
   \<and> ''daily'' \<notin> {''monthly'', ''yearly''}
   \<and> analyze_trends (\<lambda>n r. NaN) demo_climate ''temperature'' ''daily''
       = Inl (ValueError ''Unsupported time period'')
   \<and> ''pie'' \<notin> {''line'', ''heatmap'', ''boxplot''}
   \<and> visualize_data no_plots (FrameIn demo_climate) ''pie'' Map.empty
       = Inl (ValueError ''Unsupported plot type'')
   \<and> ''PDSI'' \<notin> {''SPI'', ''GDD''}
   \<and> calculate_climate_index demo_climate ''PDSI'' Map.empty
       = Inl (ValueError ''Unsupported climate index'')"
  using unsupported_tag_value_error [of "''xml''" no_files "''data.xml''" "''daily''"
      "\<lambda>n r. NaN" demo_climate "''temperature''" "''pie''" no_plots "FrameIn demo_climate"
      Map.empty "''PDSI''" Map.empty]
  by simp

text \<open>
  C7. The index calculator fails with a value error for SPI on a table without a
  precipitation column, and for GDD on a table that has neither a temperature column nor
  both of temp_max and temp_min.
\<close>

theorem missing_column_value_error:
  "(''precipitation'' \<notin> set (columns data) \<longrightarrow>
      calculate_climate_index data ''SPI'' params
        = Inl (ValueError ''Precipitation data not found in the DataFrame''))
   \<and> (''temperature'' \<notin> set (columns data)
       \<and> \<not> (''temp_max'' \<in> set (columns data) \<and> ''temp_min'' \<in> set (columns data)) \<longrightarrow>
      calculate_climate_index data ''GDD'' params
        = Inl (ValueError ''Required temperature data not found in the DataFrame''))"
  by (simp add: calculate_climate_index_def)

theorem missing_column_value_error_witness:
  "''precipitation'' \<notin> set (columns demo_humidity)
   \<and> calculate_climate_index demo_humidity ''SPI'' Map.empty
       = Inl (ValueError ''Precipitation data not found in the DataFrame'')
   \<and> ''temperature'' \<notin> set (columns demo_humidity)
   \<and> \<not> (''temp_max'' \<in> set (columns demo_humidity) \<and> ''temp_min'' \<in> set (columns demo_humidity))
   \<and> calculate_climate_index demo_humidity ''GDD'' Map.empty
       = Inl (ValueError ''Required temperature data not found in the DataFrame'')"
  using missing_column_value_error [of demo_humidity Map.empty]
  by (simp add: demo_humidity_def)

section \<open>The standardized precipitation index\<close>

lemma foldl_fadd_Fin: "foldl fadd (Fin a) (map Fin xs) = Fin (a + sum_list xs)"
  by (induction xs arbitrary: a) (simp_all add: add.assoc)

lemma fsum_Fin: "fsum (map Fin xs) = Fin (sum_list xs)"
  by (simp add: fsum_def foldl_fadd_Fin)

lemma filter_notna_Fin: "filter (\<lambda>v. \<not> isna v) (map Fin xs) = map Fin xs"
  by (induction xs) (simp_all add: isna_def)

lemma series_mean_Fin:
  "xs \<noteq> [] \<Longrightarrow> series_mean (map Fin xs) = Fin (mean_of xs)"
  by (simp add: series_mean_def filter_notna_Fin fsum_Fin mean_of_def)

lemma fsum_sqr_dev_Fin:
  "fsum (map (\<lambda>v. fmul (fsub (Fin m) v) (fsub (Fin m) v)) (map Fin xs))
     = Fin (\<Sum>x\<leftarrow>xs. (x - m)\<^sup>2)"
proof -
  have "map (\<lambda>v. fmul (fsub (Fin m) v) (fsub (Fin m) v)) (map Fin xs)
          = map Fin (map (\<lambda>x. (x - m)\<^sup>2) xs)"
    by (simp add: fsub_def power2_eq_square algebra_simps)
  then show ?thesis
    by (simp only: fsum_Fin)
qed

lemma series_std_Fin:
  assumes "2 \<le> length xs"
  shows "series_std (map Fin xs) = Fin (std_of xs)"
proof -
  have ne: "real (length xs) \<noteq> 0" "real (length xs - 1) \<noteq> 0" "\<not> length xs \<le> 1"
    using assms by auto
  have nonneg: "0 \<le> (\<Sum>x\<leftarrow>xs. (x - mean_of xs)\<^sup>2) / real (length xs - 1)"
    by (intro divide_nonneg_nonneg sum_list_nonneg) auto
  have avg: "fdiv (fsum (map Fin xs)) (Fin (real (length xs))) = Fin (mean_of xs)"
    using ne by (simp add: fsum_Fin mean_of_def)
  have "series_std (map Fin xs)
          = fsqrt (fdiv (fsum (map (\<lambda>v. fmul (fsub (Fin (mean_of xs)) v) (fsub (Fin (mean_of xs)) v))
                                 (map Fin xs)))
                     (Fin (real (length xs - 1))))"
    unfolding series_std_def filter_notna_Fin Let_def length_map avg using ne(3) by simp
  also have "\<dots> = Fin (std_of xs)"
    unfolding fsum_sqr_dev_Fin using ne(2) nonneg by (simp add: std_of_def)
  finally show ?thesis .
qed

lemma length_column: "length (column df c) = length (rows df)"
  by (simp add: column_def)

lemma series_eqI: "sname s = n \<Longrightarrow> series_index s = ls \<Longrightarrow> series_values s = vs \<Longrightarrow>
  s = \<lparr>sname = n, items = zip ls vs\<rparr>"
  by (cases s) (auto simp: series_index_def series_values_def zip_map_fst_snd)

text \<open>
  C1. On every table with a precipitation column, the index calculator with tag SPI
  returns a series named SPI on the table's own index, each of whose points is the
  precipitation of that row minus the mean of the whole column, divided by the standard
  deviation of the whole column. For a column of at least two finite values of non-zero
  deviation, these are the reals \<open>(x - mean) / std\<close>.
\<close>

theorem spi_z_score:
  assumes "''precipitation'' \<in> set (columns data)"
  shows "\<exists>s. calculate_climate_index data ''SPI'' params = Inr s
           \<and> sname s = ''SPI''
           \<and> series_index s = frame_index data
           \<and> (\<forall>i < length (rows data).
                 series_values s ! i
                   = fdiv (fsub (column data ''precipitation'' ! i)
                            (series_mean (column data ''precipitation'')))
                       (series_std (column data ''precipitation'')))
           \<and> (\<forall>xs. column data ''precipitation'' = map Fin xs \<and> 2 \<le> length xs \<and> std_of xs \<noteq> 0 \<longrightarrow>
                 series_values s = map (\<lambda>x. Fin ((x - mean_of xs) / std_of xs)) xs)"
proof -
  let ?p = "column data ''precipitation''"
  let ?s = "\<lparr>sname = ''SPI'',
             items = zip (frame_index data)
               (map (\<lambda>v. fdiv (fsub v (series_mean ?p)) (series_std ?p)) ?p)\<rparr>"
  have len: "length (frame_index data) = length ?p"
    by (simp add: frame_index_def column_def)
  have r: "calculate_climate_index data ''SPI'' params = Inr ?s"
    using assms by (simp add: calculate_climate_index_def Let_def)
  have idx: "series_index ?s = frame_index data"
    using len by (simp add: series_index_def)
  have vals: "series_values ?s = map (\<lambda>v. fdiv (fsub v (series_mean ?p)) (series_std ?p)) ?p"
    using len by (simp add: series_values_def)
  have pt: "\<forall>i < length (rows data). series_values ?s ! i
              = fdiv (fsub (?p ! i) (series_mean ?p)) (series_std ?p)"
    using vals by (simp add: length_column)
  have fin: "series_values ?s = map (\<lambda>x. Fin ((x - mean_of xs) / std_of xs)) xs"
    if "?p = map Fin xs" "2 \<le> length xs" "std_of xs \<noteq> 0" for xs
  proof -
    have "xs \<noteq> []" using that(2) by auto
    then show ?thesis
      using that vals by (simp add: series_mean_Fin series_std_Fin fsub_def)
  qed
  show ?thesis
    using r idx pt fin by (intro exI [of _ ?s]) simp
qed

theorem spi_z_score_witness:
  "''precipitation'' \<in> set (columns demo_climate)
   \<and> column demo_climate ''precipitation'' = map Fin [1, 3, 5]
   \<and> std_of [1, 3, 5] = 2
   \<and> calculate_climate_index demo_climate ''SPI'' Map.empty
       = Inr \<lparr>sname = ''SPI'',
              items = [(Ts (Date 2020 1 1), Fin (- 1)), (Ts (Date 2020 1 2), Fin 0),
                       (Ts (Date 2020 1 3), Fin 1)]\<rparr>"
proof -
  have c: "''precipitation'' \<in> set (columns demo_climate)"
    by (simp add: demo_climate_def)
  have p: "column demo_climate ''precipitation'' = map Fin [1, 3, 5]"
    by (simp add: demo_climate_def column_def row_of_def)
  have sd: "std_of [1, 3, 5] = 2"
    by (simp add: std_of_def mean_of_def)
  have hyp: "column demo_climate ''precipitation'' = map Fin [1, 3, 5] \<and> 2 \<le> length [1, 3, 5 :: real]
      \<and> std_of [1, 3, 5] \<noteq> 0"
    using p sd by simp
  from spi_z_score [OF c, of Map.empty] obtain s where
    r: "calculate_climate_index demo_climate ''SPI'' Map.empty = Inr s"
    and n: "sname s = ''SPI''"
    and i: "series_index s = frame_index demo_climate"
    and v: "\<forall>xs. column demo_climate ''precipitation'' = map Fin xs \<and> 2 \<le> length xs \<and> std_of xs \<noteq> 0
              \<longrightarrow> series_values s = map (\<lambda>x. Fin ((x - mean_of xs) / std_of xs)) xs"
    by (elim exE conjE)
  from v [rule_format, OF hyp]
  have vs: "series_values s = [Fin (- 1), Fin 0, Fin 1]"
    unfolding sd by (simp add: mean_of_def)
  have ix: "series_index s = [Ts (Date 2020 1 1), Ts (Date 2020 1 2), Ts (Date 2020 1 3)]"
    unfolding i by (simp add: frame_index_def demo_climate_def)
  have "s = \<lparr>sname = ''SPI'',
              items = zip [Ts (Date 2020 1 1), Ts (Date 2020 1 2), Ts (Date 2020 1 3)]
                        [Fin (- 1), Fin 0, Fin 1]\<rparr>"
    by (rule series_eqI [OF n ix vs])
  then show ?thesis
    using r c p sd by simp
qed

section \<open>Growing degree days\<close>


















section \<open>Growing degree days never decrease\<close>













section \<open>The loader returns clean tables\<close>

lemma to_datetime_Inr:
  "to_datetime parse ls = Inr ds \<Longrightarrow> length ds = length ls \<and> list_all is_Ts ds"
proof (induction parse ls arbitrary: ds rule: to_datetime.induct)
  case (1 parse)
  then show ?case by simp
next
  case (2 parse d ls)
  then show ?case by (auto split: sum.splits)
next
  case (3 parse s ls)
  then show ?case by (auto split: sum.splits option.splits)
qed

lemma to_datetime_total:
  "list_all (parses parse) ls \<Longrightarrow> \<exists>ds. to_datetime parse ls = Inr ds"
proof (induction parse ls rule: to_datetime.induct)
  case (1 parse)
  then show ?case by simp
next
  case (2 parse d ls)
  then show ?case by (auto split: sum.splits)
next
  case (3 parse s ls)
  then show ?case by (auto split: sum.splits option.splits)
qed

lemma set_index_props:
  assumes "length ls = length (rows df)"
  shows "columns (set_index df ls) = columns df"
    and "frame_index (set_index df ls) = ls"
    and "map snd (rows (set_index df ls)) = map snd (rows df)"
proof -
  show "columns (set_index df ls) = columns df"
    by (simp add: set_index_def)
  have "\<And>rs :: (label \<times> (string \<Rightarrow> fval)) list. length ls = length rs \<Longrightarrow>
          map fst (map (\<lambda>(l, r). (l, snd r)) (zip ls rs)) = ls
          \<and> map snd (map (\<lambda>(l, r). (l, snd r)) (zip ls rs)) = map snd rs"
    by (induct_tac ls rs rule: list_induct2) simp_all
  from this [OF assms] show "frame_index (set_index df ls) = ls"
    and "map snd (rows (set_index df ls)) = map snd (rows df)"
    by (simp_all add: set_index_def frame_index_def)
qed

lemma dropna_props:
  "columns (dropna df) = columns df"
  "rows (dropna df) = filter (row_complete (columns df)) (rows df)"
  by (simp_all add: dropna_def)

lemma dropna_index: "is_datetime_index (frame_index df) \<Longrightarrow> is_datetime_index (frame_index (dropna df))"
  by (auto simp: dropna_def is_datetime_index_def frame_index_def list_all_iff)

lemma map_snd_filter_complete:
  "map snd (filter (row_complete cs) rs) = filter (\<lambda>r. \<forall>c \<in> set cs. \<not> isna (r c)) (map snd rs)"
  by (induction rs) (auto simp: row_complete_def list_all_iff)

lemma import_data_Inr:
  assumes "import_data env file_path file_type = Inr df"
  obtains rd raw df' where "reader_for env file_type = Some rd" "rd file_path = Inr raw"
    "df = dropna df'" "columns df' = columns raw" "is_datetime_index (frame_index df')"
    "map snd (rows df') = map snd (rows raw)"
proof -
  from assms obtain rd where rd: "reader_for env file_type = Some rd"
    by (auto simp: import_data_def reader_for_def split: if_splits)
  with assms obtain raw where raw: "rd file_path = Inr raw"
    by (auto simp: import_data_def reader_for_def split: if_splits sum.splits)
  show thesis
  proof (cases "is_datetime_index (frame_index raw)")
    case True
    with assms rd raw have "df = dropna raw"
      by (auto simp: import_data_def reader_for_def split: if_splits)
    with rd raw True show ?thesis
      by (intro that [of rd raw raw]) simp_all
  next
    case False
    with assms rd raw obtain ls where ls: "to_datetime (parse_datetime env) (frame_index raw) = Inr ls"
      and df: "df = dropna (set_index raw ls)"
      by (auto simp: import_data_def reader_for_def split: if_splits sum.splits)
    from to_datetime_Inr [OF ls] have len: "length ls = length (rows raw)" and ts: "list_all is_Ts ls"
      by (simp_all add: frame_index_def)
    show ?thesis
      using rd raw df set_index_props [OF len] ts
      by (intro that [of rd raw "set_index raw ls"]) (simp_all add: is_datetime_index_def)
  qed
qed


text \<open>
  C8. A table returned by the loader has no missing value in any row and a date-typed
  index: its rows are, in order, exactly the rows of the table read from the file that
  have no missing value, and every label is a timestamp. The loader does return a table
  when the file type is supported, the reader succeeds and every row label is a
  timestamp or parses as one.
\<close>

theorem import_data_clean:
  "(import_data env file_path file_type = Inr df \<longrightarrow>
      (\<forall>r \<in> set (rows df). \<forall>c \<in> set (columns df). \<not> isna (snd r c))
      \<and> is_datetime_index (frame_index df)
      \<and> (\<exists>rd raw. reader_for env file_type = Some rd \<and> rd file_path = Inr raw
            \<and> columns df = columns raw
            \<and> map snd (rows df)
                = filter (\<lambda>r. \<forall>c \<in> set (columns raw). \<not> isna (r c)) (map snd (rows raw))))
   \<and> (reader_for env file_type = Some rd' \<and> rd' file_path = Inr raw'
       \<and> list_all (parses (parse_datetime env)) (frame_index raw') \<longrightarrow>
      (\<exists>df'. import_data env file_path file_type = Inr df'))"
proof (intro conjI impI)
  assume a: "import_data env file_path file_type = Inr df"
  then obtain rd raw df' where rd: "reader_for env file_type = Some rd" "rd file_path = Inr raw"
    and df: "df = dropna df'" and c: "columns df' = columns raw"
    and ix: "is_datetime_index (frame_index df')"
    and rs: "map snd (rows df') = map snd (rows raw)"
    by (rule import_data_Inr)
  show "\<forall>r \<in> set (rows df). \<forall>c \<in> set (columns df). \<not> isna (snd r c)"
    unfolding df by (auto simp: dropna_props row_complete_def list_all_iff)
  show "is_datetime_index (frame_index df)"
    unfolding df using ix by (rule dropna_index)
  have "columns df = columns raw"
    unfolding df by (simp add: dropna_props c)
  moreover have "map snd (rows df)
      = filter (\<lambda>r. \<forall>c \<in> set (columns raw). \<not> isna (r c)) (map snd (rows raw))"
    unfolding df dropna_props map_snd_filter_complete c rs ..
  ultimately show "\<exists>rd raw. reader_for env file_type = Some rd \<and> rd file_path = Inr raw
            \<and> columns df = columns raw
            \<and> map snd (rows df)
                = filter (\<lambda>r. \<forall>c \<in> set (columns raw). \<not> isna (r c)) (map snd (rows raw))"
    using rd by blast
next
  assume a: "reader_for env file_type = Some rd' \<and> rd' file_path = Inr raw'
       \<and> list_all (parses (parse_datetime env)) (frame_index raw')"
  then obtain ds where ds: "to_datetime (parse_datetime env) (frame_index raw') = Inr ds"
    using to_datetime_total by blast
  from a have "(if file_type = ''csv'' then read_csv env file_path
            else if file_type = ''json'' then read_json env file_path
            else if file_type = ''excel'' then read_excel env file_path
            else Inl (ValueError ''Unsupported file type'')) = Inr raw'"
    by (auto simp: reader_for_def split: if_splits)
  then show "\<exists>df'. import_data env file_path file_type = Inr df'"
    unfolding import_data_def using ds by (simp split: sum.splits)
qed

theorem import_data_clean_witness:
  "import_data demo_files ''data.csv'' ''csv'' = Inr demo_loaded
   \<and> list_all (row_complete (columns demo_loaded)) (rows demo_loaded)
   \<and> is_datetime_index (frame_index demo_loaded)
   \<and> reader_for demo_files ''csv'' = Some (read_csv demo_files)
   \<and> read_csv demo_files ''data.csv'' = Inr demo_raw
   \<and> list_all (parses (parse_datetime demo_files)) (frame_index demo_raw)"
proof -
  have r: "import_data demo_files ''data.csv'' ''csv'' = Inr demo_loaded"
    by (simp add: import_data_def demo_files_def demo_raw_def demo_loaded_def frame_index_def
        is_datetime_index_def set_index_def dropna_def row_complete_def row_of_def isna_def)
  have rd: "reader_for demo_files ''csv'' = Some (read_csv demo_files)"
    "read_csv demo_files ''data.csv'' = Inr demo_raw"
    by (simp_all add: reader_for_def demo_files_def)
  have p: "list_all (parses (parse_datetime demo_files)) (frame_index demo_raw)"
    by (simp add: demo_files_def demo_raw_def frame_index_def)
  from import_data_clean [of demo_files "''data.csv''" "''csv''" demo_loaded, THEN conjunct1] r
  have "(\<forall>r \<in> set (rows demo_loaded). \<forall>c \<in> set (columns demo_loaded). \<not> isna (snd r c))
      \<and> is_datetime_index (frame_index demo_loaded)"
    by blast
  then show ?thesis
    using r rd p by (simp add: row_complete_def list_all_iff)
qed

section \<open>The trend analyzer: regression and decomposition do not fail\<close>

lemma fold_max_Max: "fold max xs (x :: 'a :: linorder) = Max (set (x # xs))"
  by (simp only: Max.set_eq_fold)

lemma fold_min_Min: "fold min xs (x :: 'a :: linorder) = Min (set (x # xs))"
  by (simp only: Min.set_eq_fold)

lemma arange_spread:
  assumes "2 \<le> n"
  shows "fold max (tl (map real [0 ..< n])) (hd (map real [0 ..< n]))
           \<noteq> fold min (tl (map real [0 ..< n])) (hd (map real [0 ..< n]))"
proof -
  let ?x = "map real [0 ..< n]"
  have ne: "?x \<noteq> []" using assms by auto
  then have c: "hd ?x # tl ?x = ?x" by (rule hd_Cons_tl)
  have mx: "fold max (tl ?x) (hd ?x) = Max (set ?x)"
    unfolding fold_max_Max c ..
  have mn: "fold min (tl ?x) (hd ?x) = Min (set ?x)"
    unfolding fold_min_Min c ..
  have "real 1 \<in> set ?x" "real 0 \<in> set ?x"
    using assms by auto
  then have "1 \<le> Max (set ?x)" "Min (set ?x) \<le> 0"
    by (auto intro: Max_ge Min_le simp del: set_map)
  then show ?thesis
    unfolding mx mn by linarith
qed

lemma linregress_returns:
  assumes "y \<noteq> []"
  shows "\<exists>fit. linregress pv (map real [0 ..< length y]) y = Inr fit"
proof (cases "length y > 1")
  case True
  then have "2 \<le> length y" by simp
  from arange_spread [OF this] assms show ?thesis
    by (simp add: linregress_def Let_def)
next
  case False
  with assms show ?thesis
    by (simp add: linregress_def Let_def)
qed

lemma linregress_empty:
  "linregress pv (map real [0 ..< 0]) [] = Inl (ValueError ''Inputs must not be empty.'')"
  by (simp add: linregress_def)

lemma seasonal_decompose_returns:
  "list_all is_finite vs \<Longrightarrow> 2 * p \<le> length vs \<Longrightarrow>
   \<exists>sea res. seasonal_decompose p vs = Inr (sea, res) \<and> length sea = length vs \<and> length res = length vs"
  by (simp add: seasonal_decompose_def Let_def ma_trend_def)


lemma series_values_getitem:
  "series_values \<lparr>sname = c, items = map (\<lambda>r. (fst r, snd r c)) (rows df)\<rparr> = column df c"
  by (simp add: series_values_def column_def)

lemma analyze_trends_few:
  assumes rs: "resampled_data data variable time_period = Inr rs"
    and n: "0 < length (items rs)" "length (items rs) < 24"
  shows "\<exists>fit. analyze_trends pv data variable time_period
           = Inr (\<lparr>trend = fit, seasonal = None, residual = None\<rparr>,
                  [not_enough_notice (length (items rs))])"
proof -
  from n have "series_values rs \<noteq> []"
    by (auto simp: series_values_def)
  from linregress_returns [OF this, of pv] obtain fit where
    "linregress pv (map real [0 ..< length (items rs)]) (series_values rs) = Inr fit"
    by (auto simp: series_values_def)
  with n show ?thesis
    unfolding analyze_trends_def rs by simp
qed



section \<open>Resampling a table with a date-typed index\<close>

lemma map_filter_label_bin: "List.map_filter (label_bin bin) (map Ts ds) = map bin ds"
  by (induction ds) (simp_all add: List.map_filter_simps)

lemma is_datetime_index_Ts: "is_datetime_index (map Ts ds)"
  by (simp add: is_datetime_index_def list_all_iff)

lemma resample_mean_dates:
  assumes "series_index s = map Ts ds" and "ds \<noteq> []"
  shows "resample_mean bin lab s
    = Inr \<lparr>sname = sname s,
           items = map (\<lambda>j. (Ts (lab j), series_mean (bin_values bin (items s) j)))
                     [Min (bin ` set ds) .. Max (bin ` set ds)]\<rparr>"
proof -
  from assms(2) obtain d ds' where ds: "ds = d # ds'"
    by (cases ds) auto
  have mn: "fold min (map bin ds') (bin d) = Min (bin ` set ds)"
    unfolding fold_min_Min ds by simp
  have mx: "fold max (map bin ds') (bin d) = Max (bin ` set ds)"
    unfolding fold_max_Max ds by simp
  have "List.map_filter (label_bin bin) (series_index s) = bin d # map bin ds'"
    unfolding assms(1) map_filter_label_bin ds by simp
  then show ?thesis
    unfolding resample_mean_def assms(1) using is_datetime_index_Ts [of ds]
    by (simp add: mn mx assms(1))
qed


lemma finite_list: "list_all is_finite vs \<Longrightarrow> \<exists>xs. vs = map Fin xs"
proof (induction vs)
  case Nil
  then show ?case by simp
next
  case (Cons v vs)
  then obtain xs where "vs = map Fin xs" by auto
  moreover from Cons.prems obtain x where "v = Fin x" by (cases v) auto
  ultimately have "v # vs = map Fin (x # xs)" by simp
  then show ?case by (rule exI)
qed

lemma series_mean_finite:
  assumes "list_all is_finite vs" and "vs \<noteq> []"
  shows "is_finite (series_mean vs)"
proof -
  from finite_list [OF assms(1)] obtain xs where xs: "vs = map Fin xs" ..
  with assms(2) have "xs \<noteq> []" by auto
  then show ?thesis
    unfolding xs by (simp add: series_mean_Fin)
qed

lemma bin_values_finite:
  "list_all is_finite (map snd its) \<Longrightarrow> list_all is_finite (bin_values bin its k)"
  by (auto simp: bin_values_def list_all_iff)

lemma bin_values_nonempty:
  assumes "map fst its = map Ts ds" and "d \<in> set ds" and "bin d = k"
  shows "bin_values bin its k \<noteq> []"
proof -
  from assms(2) have "Ts d \<in> set (map fst its)"
    unfolding assms(1) by simp
  then obtain it where "it \<in> set its" "fst it = Ts d"
    by auto
  with assms(3) have "it \<in> set (filter (\<lambda>it. label_bin bin (fst it) = Some k) its)"
    by simp
  then show ?thesis
    unfolding bin_values_def by (metis empty_iff list.map_disc_iff list.set(1))
qed

lemma resampled_monthly:
  assumes "variable \<in> set (columns data)" and "frame_index data = map Ts ds" and "ds \<noteq> []"
  shows "resampled_data data variable ''monthly''
    = Inr \<lparr>sname = variable,
           items = map (\<lambda>j. (Ts (month_end j),
                          series_mean (bin_values month_bin
                            (map (\<lambda>r. (fst r, snd r variable)) (rows data)) j)))
                     [Min (month_bin ` set ds) .. Max (month_bin ` set ds)]\<rparr>"
proof -
  let ?s = "\<lparr>sname = variable, items = map (\<lambda>r. (fst r, snd r variable)) (rows data)\<rparr>"
  have "series_index ?s = map Ts ds"
    using assms(2) by (simp add: series_index_def frame_index_def comp_def)
  from resample_mean_dates [OF this assms(3), of month_bin month_end] assms(1)
  show ?thesis
    by (simp add: resampled_data_def getitem_def)
qed


lemma analyze_trends_enough:
  assumes rs: "resampled_data data variable time_period = Inr rs"
    and n: "24 \<le> length (items rs)"
    and fin: "list_all is_finite (series_values rs)"
  shows "\<exists>res sea r. analyze_trends pv data variable time_period = Inr (res, [])
           \<and> seasonal res = Some sea \<and> length (items sea) = length (items rs)
           \<and> residual res = Some r \<and> length (items r) = length (items rs)"
proof -
  have len: "length (series_values rs) = length (items rs)" "length (series_index rs) = length (items rs)"
    by (simp_all add: series_values_def series_index_def)
  from n have "series_values rs \<noteq> []"
    using len by auto
  from linregress_returns [OF this, of pv] obtain fit where
    fit: "linregress pv (map real [0 ..< length (items rs)]) (series_values rs) = Inr fit"
    by (auto simp: len)
  from seasonal_decompose_returns [OF fin, of 12] n obtain sea res where
    dec: "seasonal_decompose 12 (series_values rs) = Inr (sea, res)"
    and l: "length sea = length (items rs)" "length res = length (items rs)"
    by (auto simp: len)
  show ?thesis
    unfolding analyze_trends_def rs using n fit dec l len by simp
qed

lemma str_nat_1: "str_nat (Suc 0) = ''1''"
  by (subst str_nat.simps) (simp add: digit_char_def)

text \<open>
  C5. A table whose rows all fall in one calendar month, such as ten
  consecutive days of one month, resamples monthly to one point: the analyzer returns the
  trend alone and prints the notice ending in 1. A table of finite values whose rows cover
  every month of three calendar years and no other month, such as daily data for three
  full calendar years, resamples monthly to 36 points, and the result holds a seasonal and
  a residual series of 36 points each.
\<close>

theorem monthly_examples:
  "(variable \<in> set (columns data) \<and> frame_index data = map Ts ds \<and> ds \<noteq> []
      \<and> (\<forall>d \<in> set ds. month_bin d = k) \<longrightarrow>
      (\<exists>rs fit. resampled_data data variable ''monthly'' = Inr rs \<and> length (items rs) = 1
         \<and> analyze_trends pv data variable ''monthly''
             = Inr (\<lparr>trend = fit, seasonal = None, residual = None\<rparr>,
                    [''Warning: Not enough data for seasonal decomposition. Need at least 24 observations, but only have 1.''])))
   \<and> (variable \<in> set (columns data) \<and> frame_index data = map Ts ds
       \<and> list_all is_finite (column data variable)
       \<and> (\<forall>d \<in> set ds. 12 * y \<le> month_bin d \<and> month_bin d \<le> 12 * y + 35)
       \<and> (\<forall>j \<in> {12 * y .. 12 * y + 35}. \<exists>d \<in> set ds. month_bin d = j) \<longrightarrow>
      (\<exists>rs res sea r. resampled_data data variable ''monthly'' = Inr rs \<and> length (items rs) = 36
         \<and> analyze_trends pv data variable ''monthly'' = Inr (res, [])
         \<and> seasonal res = Some sea \<and> length (items sea) = 36
         \<and> residual res = Some r \<and> length (items r) = 36))"
proof (intro conjI impI)
  let ?its = "map (\<lambda>r. (fst r, snd r variable)) (rows data)"
  assume a: "variable \<in> set (columns data) \<and> frame_index data = map Ts ds \<and> ds \<noteq> []
      \<and> (\<forall>d \<in> set ds. month_bin d = k)"
  then have "month_bin ` set ds = {k}"
    by (cases ds) auto
  then have mm: "Min (month_bin ` set ds) = k" "Max (month_bin ` set ds) = k"
    by simp_all
  let ?rs = "\<lparr>sname = variable,
      items = [(Ts (month_end k), series_mean (bin_values month_bin ?its k))]\<rparr>"
  from a have rs: "resampled_data data variable ''monthly'' = Inr ?rs"
    by (simp add: resampled_monthly mm)
  have l1: "length (items ?rs) = 1"
    by simp
  from analyze_trends_few [OF rs, of pv]
  obtain fit where "analyze_trends pv data variable ''monthly''
           = Inr (\<lparr>trend = fit, seasonal = None, residual = None\<rparr>, [not_enough_notice (Suc 0)])"
    by auto
  then have "analyze_trends pv data variable ''monthly''
           = Inr (\<lparr>trend = fit, seasonal = None, residual = None\<rparr>,
                  [''Warning: Not enough data for seasonal decomposition. Need at least 24 observations, but only have 1.''])"
    by (simp add: not_enough_notice_def str_nat_1)
  with rs show "\<exists>rs fit. resampled_data data variable ''monthly'' = Inr rs \<and> length (items rs) = 1
         \<and> analyze_trends pv data variable ''monthly''
             = Inr (\<lparr>trend = fit, seasonal = None, residual = None\<rparr>,
                    [''Warning: Not enough data for seasonal decomposition. Need at least 24 observations, but only have 1.''])"
    by (intro exI [of _ ?rs] exI [of _ fit]) simp
next
  let ?its = "map (\<lambda>r. (fst r, snd r variable)) (rows data)"
  assume a: "variable \<in> set (columns data) \<and> frame_index data = map Ts ds
       \<and> list_all is_finite (column data variable)
       \<and> (\<forall>d \<in> set ds. 12 * y \<le> month_bin d \<and> month_bin d \<le> 12 * y + 35)
       \<and> (\<forall>j \<in> {12 * y .. 12 * y + 35}. \<exists>d \<in> set ds. month_bin d = j)"
  then have cover: "month_bin ` set ds = {12 * y .. 12 * y + 35}"
    by (auto simp: image_iff)
  then have ne: "ds \<noteq> []" by auto
  have mm: "Min (month_bin ` set ds) = 12 * y" "Max (month_bin ` set ds) = 12 * y + 35"
    unfolding cover by (intro Min_eqI Max_eqI; simp)+
  let ?rs = "\<lparr>sname = variable,
      items = map (\<lambda>j. (Ts (month_end j), series_mean (bin_values month_bin ?its j)))
                [12 * y .. 12 * y + 35]\<rparr>"
  from a ne have rs: "resampled_data data variable ''monthly'' = Inr ?rs"
    by (simp add: resampled_monthly mm)
  have len: "length (items ?rs) = 36"
    by simp
  have fst_its: "map fst ?its = map Ts ds"
    using a by (simp add: frame_index_def comp_def)
  have fin_its: "list_all is_finite (map snd ?its)"
    using a by (simp add: column_def comp_def)
  have "is_finite (series_mean (bin_values month_bin ?its j))" if "j \<in> {12 * y .. 12 * y + 35}" for j
  proof -
    from that a obtain d where "d \<in> set ds" "month_bin d = j"
      by blast
    then have "bin_values month_bin ?its j \<noteq> []"
      using fst_its by (rule_tac bin_values_nonempty [where bin = month_bin and ds = ds and d = d])
    moreover have "list_all is_finite (bin_values month_bin ?its j)"
      using fin_its by (rule bin_values_finite)
    ultimately show ?thesis
      by (intro series_mean_finite)
  qed
  then have fin: "list_all is_finite (series_values ?rs)"
    by (simp add: series_values_def list_all_iff)
  have n24: "24 \<le> length (items ?rs)"
    by simp
  from analyze_trends_enough [OF rs n24 fin, of pv] obtain res sea r where
    at: "analyze_trends pv data variable ''monthly'' = Inr (res, [])"
    and sea: "seasonal res = Some sea" "length (items sea) = length (items ?rs)"
    and r: "residual res = Some r" "length (items r) = length (items ?rs)"
    by blast
  from sea(2) r(2) have l36: "length (items sea) = 36" "length (items r) = 36"
    by simp_all
  show "\<exists>rs res sea r. resampled_data data variable ''monthly'' = Inr rs \<and> length (items rs) = 36
         \<and> analyze_trends pv data variable ''monthly'' = Inr (res, [])
         \<and> seasonal res = Some sea \<and> length (items sea) = 36
         \<and> residual res = Some r \<and> length (items r) = 36"
    using rs len at sea(1) r(1) l36 by blast
qed

section \<open>Examples of the trend analyzer\<close>

lemma length_daily: "length (daily d n) = n"
  by (induction n arbitrary: d) simp_all

lemma daily_table_props:
  "columns (daily_table start vs) = [''temperature'']"
  "frame_index (daily_table start vs) = map Ts (daily start (length vs))"
  "column (daily_table start vs) ''temperature'' = vs"
proof -
  have l: "length (daily start (length vs)) = length vs"
    by (rule length_daily)
  show "columns (daily_table start vs) = [''temperature'']"
    by (simp add: daily_table_def)
  have "\<And>ds :: date list. length ds = length vs \<Longrightarrow>
     map fst (map (\<lambda>(d, v). (Ts d, \<lambda>c. if c = ''temperature'' then v else NaN)) (zip ds vs)) = map Ts ds
     \<and> map (\<lambda>r. snd r ''temperature'')
         (map (\<lambda>(d, v). (Ts d, \<lambda>c. if c = ''temperature'' then v else NaN)) (zip ds vs)) = vs"
    by (induct_tac ds vs rule: list_induct2) simp_all
  from this [OF l] show "frame_index (daily_table start vs) = map Ts (daily start (length vs))"
    and "column (daily_table start vs) ''temperature'' = vs"
    by (simp_all add: daily_table_def frame_index_def column_def)
qed


lemma month_bin_Date: "month_bin (Date y m d) = 12 * y + int m - 1"
  by (simp add: month_bin_def)

lemma daily_in_month:
  "d \<le> days_in_month y m \<Longrightarrow> d + k \<le> Suc (days_in_month y m) \<Longrightarrow>
   map month_bin (daily (Date y m d) (k + n))
     = replicate k (12 * y + int m - 1)
       @ map month_bin (daily (if d + k \<le> days_in_month y m then Date y m (d + k)
                               else if m < 12 then Date y (m + 1) 1 else Date (y + 1) 1 1) n)"
proof (induction k arbitrary: d)
  case 0
  then show ?case by simp
next
  case (Suc k)
  show ?case
  proof (cases "d < days_in_month y m")
    case True
    with Suc.prems have "Suc d \<le> days_in_month y m" "Suc d + k \<le> Suc (days_in_month y m)"
      by simp_all
    from Suc.IH [OF this] True show ?thesis
      by (simp add: month_bin_Date)
  next
    case False
    with Suc.prems have "k = 0" "d = days_in_month y m"
      by simp_all
    then show ?thesis
      by (simp add: month_bin_Date)
  qed
qed

lemma month_chunk:
  assumes "d = 1" and "dm = days_in_month y m" and "dm \<le> n"
  shows "map month_bin (daily (Date y m d) n)
     = replicate dm (12 * y + int m - 1)
       @ map month_bin (daily (if m < 12 then Date y (m + 1) 1 else Date (y + 1) 1 1) (n - dm))"
proof -
  have "1 \<le> days_in_month y m"
    by (simp add: days_in_month_def)
  from daily_in_month [OF this, of dm "n - dm"] assms show ?thesis
    by simp
qed

lemma bins_three_years:
  "map month_bin (daily (Date 2020 1 1) 1096)
     = replicate 31 24240 @ replicate 29 24241 @ replicate 31 24242 @ replicate 30 24243
       @ replicate 31 24244 @ replicate 30 24245 @ replicate 31 24246 @ replicate 31 24247
       @ replicate 30 24248 @ replicate 31 24249 @ replicate 30 24250 @ replicate 31 24251
       @ replicate 31 24252 @ replicate 28 24253 @ replicate 31 24254 @ replicate 30 24255
       @ replicate 31 24256 @ replicate 30 24257 @ replicate 31 24258 @ replicate 31 24259
       @ replicate 30 24260 @ replicate 31 24261 @ replicate 30 24262 @ replicate 31 24263
       @ replicate 31 24264 @ replicate 28 24265 @ replicate 31 24266 @ replicate 30 24267
       @ replicate 31 24268 @ replicate 30 24269 @ replicate 31 24270 @ replicate 31 24271
       @ replicate 30 24272 @ replicate 31 24273 @ replicate 30 24274 @ replicate 31 24275"
proof -
  have y20: "map month_bin (daily (Date 2020 1 1) 1096)
     = replicate 31 24240 @ replicate 29 24241 @ replicate 31 24242 @ replicate 30 24243
       @ replicate 31 24244 @ replicate 30 24245 @ replicate 31 24246 @ replicate 31 24247
       @ replicate 30 24248 @ replicate 31 24249 @ replicate 30 24250 @ replicate 31 24251
       @ map month_bin (daily (Date 2021 1 1) 730)"
    by (simp add: month_chunk [where dm = 31] month_chunk [where dm = 30]
        month_chunk [where dm = 29] days_in_month_def leap_year_def)
  have y21: "map month_bin (daily (Date 2021 1 1) 730)
     = replicate 31 24252 @ replicate 28 24253 @ replicate 31 24254 @ replicate 30 24255
       @ replicate 31 24256 @ replicate 30 24257 @ replicate 31 24258 @ replicate 31 24259
       @ replicate 30 24260 @ replicate 31 24261 @ replicate 30 24262 @ replicate 31 24263
       @ map month_bin (daily (Date 2022 1 1) 365)"
    by (simp add: month_chunk [where dm = 31] month_chunk [where dm = 30]
        month_chunk [where dm = 28] days_in_month_def leap_year_def)
  have y22: "map month_bin (daily (Date 2022 1 1) 365)
     = replicate 31 24264 @ replicate 28 24265 @ replicate 31 24266 @ replicate 30 24267
       @ replicate 31 24268 @ replicate 30 24269 @ replicate 31 24270 @ replicate 31 24271
       @ replicate 30 24272 @ replicate 31 24273 @ replicate 30 24274 @ replicate 31 24275"
    by (simp add: month_chunk [where dm = 31] month_chunk [where dm = 30]
        month_chunk [where dm = 28] days_in_month_def leap_year_def)
  show ?thesis
    unfolding y20 y21 y22 by simp
qed


lemma bins_ten_days: "map month_bin (daily (Date 2020 1 1) 10) = replicate 10 24240"
  using daily_in_month [of 1 2020 1 10 0] by (simp add: days_in_month_def)

lemma ten_days_across_dates:
  "daily (Date 2020 1 27) 10
     = [Date 2020 1 27, Date 2020 1 28, Date 2020 1 29, Date 2020 1 30, Date 2020 1 31,
        Date 2020 2 1, Date 2020 2 2, Date 2020 2 3, Date 2020 2 4, Date 2020 2 5]"
  by code_simp




theorem monthly_examples_counterexample:
  "resampled_data ten_days_across ''temperature'' ''monthly''
     = Inr \<lparr>sname = ''temperature'',
            items = [(Ts (Date 2020 1 31), Fin 15), (Ts (Date 2020 2 29), Fin 15)]\<rparr>
   \<and> \<not> isl (analyze_trends no_pvalue ten_days_across ''temperature'' ''monthly'')
   \<and> snd (projr (analyze_trends no_pvalue ten_days_across ''temperature'' ''monthly''))
       = [''Warning: Not enough data for seasonal decomposition. Need at least 24 observations, but only have 2.'']"
proof -
  let ?rs = "\<lparr>sname = ''temperature'',
            items = [(Ts (Date 2020 1 31), Fin 15), (Ts (Date 2020 2 29), Fin 15)]\<rparr>"
  have rep: "replicate 10 v = [v, v, v, v, v, v, v, v, v, v]" for v :: fval
    by (simp add: eval_nat_numeral)
  have rs: "resampled_data ten_days_across ''temperature'' ''monthly'' = Inr ?rs"
    unfolding ten_days_across_def daily_table_def length_replicate ten_days_across_dates rep
    by (simp add: resampled_data_def getitem_def resample_mean_def
        series_index_def is_datetime_index_def List.map_filter_simps month_bin_def month_end_def
        days_in_month_def leap_year_def bin_values_def series_mean_def fsum_def isna_def)
  have s2: "str_nat (Suc (Suc 0)) = ''2''"
    by (subst str_nat.simps) (simp add: digit_char_def)
  from analyze_trends_few [OF rs, of no_pvalue] obtain fit where
    "analyze_trends no_pvalue ten_days_across ''temperature'' ''monthly''
       = Inr (\<lparr>trend = fit, seasonal = None, residual = None\<rparr>, [not_enough_notice (Suc (Suc 0))])"
    by auto
  then have "analyze_trends no_pvalue ten_days_across ''temperature'' ''monthly''
       = Inr (\<lparr>trend = fit, seasonal = None, residual = None\<rparr>,
              [''Warning: Not enough data for seasonal decomposition. Need at least 24 observations, but only have 2.''])"
    by (simp add: not_enough_notice_def s2)
  with rs show ?thesis
    by simp
qed

theorem monthly_examples_witness:
  "''temperature'' \<in> set (columns ten_days)
   \<and> frame_index ten_days = map Ts (daily (Date 2020 1 1) 10)
   \<and> daily (Date 2020 1 1) 10 \<noteq> []
   \<and> set (map month_bin (daily (Date 2020 1 1) 10)) = {24240}
   \<and> (\<exists>rs fit. resampled_data ten_days ''temperature'' ''monthly'' = Inr rs
          \<and> length (items rs) = 1
          \<and> analyze_trends no_pvalue ten_days ''temperature'' ''monthly''
              = Inr (\<lparr>trend = fit, seasonal = None, residual = None\<rparr>,
                     [''Warning: Not enough data for seasonal decomposition. Need at least 24 observations, but only have 1.'']))
   \<and> ''temperature'' \<in> set (columns three_years)
   \<and> frame_index three_years = map Ts (daily (Date 2020 1 1) 1096)
   \<and> list_all is_finite (column three_years ''temperature'')
   \<and> set (map month_bin (daily (Date 2020 1 1) 1096)) = {12 * 2020 .. 12 * 2020 + 35}
   \<and> (\<exists>rs res sea r. resampled_data three_years ''temperature'' ''monthly'' = Inr rs
          \<and> length (items rs) = 36
          \<and> analyze_trends no_pvalue three_years ''temperature'' ''monthly'' = Inr (res, [])
          \<and> seasonal res = Some sea \<and> length (items sea) = 36
          \<and> residual res = Some r \<and> length (items r) = 36)"
proof -
  have c10: "''temperature'' \<in> set (columns ten_days)"
    by (simp add: ten_days_def daily_table_props)
  have i10: "frame_index ten_days = map Ts (daily (Date 2020 1 1) 10)"
    by (simp add: ten_days_def daily_table_props)
  have n10: "daily (Date 2020 1 1) 10 \<noteq> []"
    using length_daily [of "Date 2020 1 1" 10] by auto
  have b10: "set (map month_bin (daily (Date 2020 1 1) 10)) = {24240}"
    unfolding bins_ten_days by simp
  then have a10: "\<forall>d \<in> set (daily (Date 2020 1 1) 10). month_bin d = 24240"
    by auto
  note A = monthly_examples [where data = ten_days and variable = "''temperature''"
      and ds = "daily (Date 2020 1 1) 10" and k = 24240 and pv = no_pvalue, THEN conjunct1]
  have 1: "\<exists>rs fit. resampled_data ten_days ''temperature'' ''monthly'' = Inr rs
          \<and> length (items rs) = 1
          \<and> analyze_trends no_pvalue ten_days ''temperature'' ''monthly''
              = Inr (\<lparr>trend = fit, seasonal = None, residual = None\<rparr>,
                     [''Warning: Not enough data for seasonal decomposition. Need at least 24 observations, but only have 1.''])"
    using A c10 i10 n10 a10 by blast
  have c3: "''temperature'' \<in> set (columns three_years)"
    by (simp add: three_years_def daily_table_props)
  have i3: "frame_index three_years = map Ts (daily (Date 2020 1 1) 1096)"
    by (simp add: three_years_def daily_table_props)
  have f3: "list_all is_finite (column three_years ''temperature'')"
    by (simp add: three_years_def daily_table_props list_all_iff)
  have "[24240 .. 24275 :: int] = [24240, 24241, 24242, 24243, 24244, 24245, 24246, 24247, 24248, 24249, 24250, 24251, 24252, 24253, 24254, 24255, 24256, 24257, 24258, 24259, 24260, 24261, 24262, 24263, 24264, 24265, 24266, 24267, 24268, 24269, 24270, 24271, 24272, 24273, 24274, 24275]"
    by simp
  then have "{12 * 2020 .. 12 * 2020 + 35 :: int} = set [24240, 24241, 24242, 24243, 24244, 24245, 24246, 24247, 24248, 24249, 24250, 24251, 24252, 24253, 24254, 24255, 24256, 24257, 24258, 24259, 24260, 24261, 24262, 24263, 24264, 24265, 24266, 24267, 24268, 24269, 24270, 24271, 24272, 24273, 24274, 24275]"
    by (simp flip: set_upto)
  then have b3: "set (map month_bin (daily (Date 2020 1 1) 1096)) = {12 * 2020 .. 12 * 2020 + 35}"
    unfolding bins_three_years by (simp add: insert_commute)
  have a3: "\<forall>d \<in> set (daily (Date 2020 1 1) 1096).
        12 * 2020 \<le> month_bin d \<and> month_bin d \<le> 12 * 2020 + 35"
  proof
    fix d assume "d \<in> set (daily (Date 2020 1 1) 1096)"
    then have "month_bin d \<in> set (map month_bin (daily (Date 2020 1 1) 1096))"
      unfolding set_map by (rule imageI)
    then have "month_bin d \<in> {12 * 2020 .. 12 * 2020 + 35}"
      unfolding b3 .
    then show "12 * 2020 \<le> month_bin d \<and> month_bin d \<le> 12 * 2020 + 35"
      by (simp only: atLeastAtMost_iff)
  qed
  have e3: "\<forall>j \<in> {12 * 2020 .. 12 * 2020 + 35}. \<exists>d \<in> set (daily (Date 2020 1 1) 1096). month_bin d = j"
  proof
    fix j :: int assume "j \<in> {12 * 2020 .. 12 * 2020 + 35}"
    then have "j \<in> set (map month_bin (daily (Date 2020 1 1) 1096))"
      unfolding b3 .
    then show "\<exists>d \<in> set (daily (Date 2020 1 1) 1096). month_bin d = j"
      unfolding set_map by blast
  qed
  note B = monthly_examples [where data = three_years and variable = "''temperature''"
      and ds = "daily (Date 2020 1 1) 1096" and y = 2020 and pv = no_pvalue, THEN conjunct2]
  have 2: "\<exists>rs res sea r. resampled_data three_years ''temperature'' ''monthly'' = Inr rs
          \<and> length (items rs) = 36
          \<and> analyze_trends no_pvalue three_years ''temperature'' ''monthly'' = Inr (res, [])
          \<and> seasonal res = Some sea \<and> length (items sea) = 36
          \<and> residual res = Some r \<and> length (items r) = 36"
    using B c3 i3 f3 a3 e3 by blast
  show ?thesis
    using c10 i10 n10 b10 1 c3 i3 f3 b3 2 by blast
qed

section \<open>Least squares on increasing and on constant series\<close>









lemma length_dev: "length (dev xs) = length xs"
  by (simp add: dev_def)















section \<open>The precipitation index of a degenerate column\<close>










end
